theory Spec2Isabelle
  imports Main "HOL-Library.Sublist"
begin

section \<open>The database\<close>

text \<open>
  The four tables of \<^verbatim>\<open>db-init.sql\<close>, each a list of rows in insertion order.
  Every \<^verbatim>\<open>id\<close> column is a \<^verbatim>\<open>TEXT PRIMARY KEY\<close>: an insert whose id is
  already in the table is refused by the database, and the handler answers 500.
  The schema declares foreign keys, but the server never switches their enforcement on
  (no \<^verbatim>\<open>PRAGMA foreign_keys\<close>), so no statement is refused on their account.

  The only nullable value the server itself ever stores is \<^verbatim>\<open>expires_at\<close>: when
  \<^verbatim>\<open>parseInt\<close> yields \<^verbatim>\<open>NaN\<close> the computed deadline is \<^verbatim>\<open>NaN\<close>, which the
  database keeps as \<^verbatim>\<open>NULL\<close>. It is \<open>None\<close> here.
\<close>

record user_row =
  u_id :: string
  u_name :: string
  u_role :: string

record section_row =
  sec_id :: string
  sec_code :: string
  sec_title :: string
  sec_faculty_id :: string

record session_row =
  s_id :: string
  s_section_id :: string
  s_token :: string
  s_start_at :: int
  s_expires_at :: "int option"

record attendance_row =
  a_id :: string
  a_session_id :: string
  a_student_id :: string
  a_status :: string
  a_checkin_time :: int
  a_method :: string

record db =
  users :: "user_row list"
  sections :: "section_row list"
  sessions :: "session_row list"
  attendance :: "attendance_row list"

section \<open>Request values and responses\<close>

text \<open>
  Identifiers and tokens of a request body are text or absent (\<open>None\<close> stands for a
  missing or \<^verbatim>\<open>null\<close> field). \<^verbatim>\<open>!x\<close> holds for an absent field and for the empty
  string.
\<close>

fun truthy_str :: "string option \<Rightarrow> bool" where
  "truthy_str None = False"
| "truthy_str (Some s) = (s \<noteq> [])"

fun text_of :: "string option \<Rightarrow> string" where
  "text_of None = []"
| "text_of (Some s) = s"

text \<open>
  \<^verbatim>\<open>durationMinutes\<close> is used as a JavaScript value. Numbers are the integral ones,
  as mathematical integers, and text is ASCII. JavaScript computes with doubles: what
  is written here for numbers is what the source does as long as every number involved
  is a safe integer (\<open>safe_integer\<close>, magnitude at most \<open>2^53 - 1\<close>). Beyond that
  range the source rounds, and from \<open>10^21\<close> on it prints a number in exponent
  notation (\<^verbatim>\<open>String(1e21)\<close> is \<^verbatim>\<open>"1e+21"\<close>, which \<^verbatim>\<open>parseInt\<close> reads as 1);
  nothing is stated about the handler there: every statement about a numeric duration
  carries the range \<open>exact_ms\<close>.
\<close>

datatype jsval = JUndefined | JNull | JBool bool | JNumber int | JString string

fun truthy :: "jsval \<Rightarrow> bool" where
  "truthy JUndefined = False"
| "truthy JNull = False"
| "truthy (JBool b) = b"
| "truthy (JNumber n) = (n \<noteq> 0)"
| "truthy (JString s) = (s \<noteq> [])"

definition js_or :: "jsval \<Rightarrow> jsval \<Rightarrow> jsval" where
  \<comment> \<open>\<^verbatim>\<open>a || b\<close>\<close>
  "js_or a b = (if truthy a then a else b)"

definition safe_integer :: "int \<Rightarrow> bool" where
  \<comment> \<open>\<^verbatim>\<open>Number.isSafeInteger\<close>\<close>
  "safe_integer n = (\<bar>n\<bar> \<le> 9007199254740991)"

definition digit_char :: "nat \<Rightarrow> char" where
  "digit_char d = char_of (48 + d)"

fun digits :: "nat \<Rightarrow> string" where
  "digits n = (if n < 10 then [digit_char n] else digits (n div 10) @ [digit_char (n mod 10)])"

declare digits.simps [simp del]

fun toString :: "jsval \<Rightarrow> string" where
  \<comment> \<open>\<^verbatim>\<open>ToString\<close>; a number is written in decimal, which is what JavaScript prints
      for an integer below \<open>10^21\<close> in magnitude, so for every safe integer. From
      \<open>10^21\<close> on JavaScript prints exponent notation; that is not modelled.\<close>
  "toString JUndefined = ''undefined''"
| "toString JNull = ''null''"
| "toString (JBool b) = (if b then ''true'' else ''false'')"
| "toString (JNumber n) = (if n < 0 then CHR ''-'' # digits (nat (- n)) else digits (nat n))"
| "toString (JString s) = s"

definition isWhiteSpace :: "char \<Rightarrow> bool" where
  \<comment> \<open>the ASCII white space that \<^verbatim>\<open>parseInt\<close> skips: TAB, LF, VT, FF, CR, SP.
      JavaScript also skips the white space beyond ASCII (U+00A0, U+FEFF and the other
      Unicode spaces and line ends); that is not modelled, text being ASCII here.\<close>
  "isWhiteSpace c = (of_char c \<in> {9, 10, 11, 12, 13, 32 :: nat})"

definition isDigit :: "char \<Rightarrow> bool" where
  "isDigit c = (48 \<le> (of_char c :: nat) \<and> (of_char c :: nat) \<le> 57)"

definition digitVal :: "char \<Rightarrow> nat" where
  "digitVal c = of_char c - 48"

definition digitsValue :: "string \<Rightarrow> nat" where
  "digitsValue z = foldl (\<lambda>a c. 10 * a + digitVal c) 0 z"

definition parseInt :: "string \<Rightarrow> int option" where
  \<comment> \<open>\<^verbatim>\<open>parseInt(s, 10)\<close>: skip white space, read a sign, read the longest run of
      decimal digits, ignore the rest; \<open>None\<close> is \<^verbatim>\<open>NaN\<close> (no digit). The value
      is the exact integer; JavaScript returns the same while it is a safe integer and
      the nearest double beyond.\<close>
  "parseInt str =
     (let s = dropWhile isWhiteSpace str;
          sign = (case s of c # _ \<Rightarrow> if c = CHR ''-'' then - 1 else 1 | [] \<Rightarrow> 1);
          s' = (case s of c # r \<Rightarrow> if c = CHR ''-'' \<or> c = CHR ''+'' then r else s | [] \<Rightarrow> s);
          z = takeWhile isDigit s'
      in if z = [] then None else Some (sign * int (digitsValue z)))"

definition js_gt :: "int \<Rightarrow> int option \<Rightarrow> bool" where
  \<comment> \<open>\<^verbatim>\<open>a > b\<close> where \<open>b\<close> is read from an INTEGER column: \<^verbatim>\<open>null\<close> counts as 0\<close>
  "js_gt a b = (case b of None \<Rightarrow> a > 0 | Some b' \<Rightarrow> a > b')"

text \<open>
  A response is its HTTP status and its body. \<open>DbFailure\<close> is the body
  \<^verbatim>\<open>{error: e.message}\<close> of a request whose statement the database refused.
\<close>

record csv_row =
  attendance_id :: string
  session_id :: string
  section_id :: "string option"
  student_id :: string
  status :: string
  checkin_time :: int
  method_col :: string

datatype payload =
    Error string
  | Success
  | SuccessMessage string
  | SessionCreated string string "int option" string
  | Text string
  | Csv "csv_row list"
  | DbFailure

datatype reply = Reply nat payload

fun reply_status :: "reply \<Rightarrow> nat" where
  "reply_status (Reply st _) = st"

section \<open>The handlers\<close>

subsection \<open>Startup\<close>

definition seed_users :: "user_row list" where
  "seed_users =
     [\<lparr>u_id = ''faculty1'', u_name = ''Prof. Alice'', u_role = ''faculty''\<rparr>,
      \<lparr>u_id = ''stu1'', u_name = ''Bob Student'', u_role = ''student''\<rparr>,
      \<lparr>u_id = ''stu2'', u_name = ''Cara Student'', u_role = ''student''\<rparr>]"

definition seed_section :: section_row where
  "seed_section =
     \<lparr>sec_id = ''sec101'', sec_code = ''CS101'', sec_title = ''Intro to CS'',
      sec_faculty_id = ''faculty1''\<rparr>"

definition initDb :: "db \<Rightarrow> db" where
  \<comment> \<open>The schema statements are \<^verbatim>\<open>CREATE TABLE IF NOT EXISTS\<close>; the demo rows are
      inserted when \<^verbatim>\<open>users\<close> is empty. A refused insert ends the seeding (the
      error is caught and logged), keeping the rows already inserted.\<close>
  "initDb d =
     (if users d = [] then
        (if ''sec101'' \<in> sec_id ` set (sections d)
         then d\<lparr>users := seed_users\<rparr>
         else d\<lparr>users := seed_users, sections := sections d @ [seed_section]\<rparr>)
      else d)"

subsection \<open>Faculty management\<close>

definition api_faculty_add :: "db \<Rightarrow> string option \<Rightarrow> string option \<Rightarrow> db \<times> reply" where
  "api_faculty_add d idv namev =
     (if \<not> truthy_str idv \<or> \<not> truthy_str namev then (d, Reply 400 (Error ''id & name required''))
      else if text_of idv \<in> u_id ` set (users d) then (d, Reply 500 DbFailure)
      else (d\<lparr>users := users d @
                [\<lparr>u_id = text_of idv, u_name = text_of namev, u_role = ''faculty''\<rparr>]\<rparr>,
            Reply 200 Success))"

definition api_faculty_delete :: "db \<Rightarrow> string \<Rightarrow> db \<times> reply" where
  \<comment> \<open>\<^verbatim>\<open>DELETE FROM users WHERE id=? AND role="faculty"\<close>: no column is called
      \<^verbatim>\<open>faculty\<close>, so SQLite reads the double-quoted word as the string.\<close>
  "api_faculty_delete d idv =
     (d\<lparr>users := filter (\<lambda>u. \<not> (u_id u = idv \<and> u_role u = ''faculty'')) (users d)\<rparr>,
      Reply 200 Success)"

subsection \<open>Session manager\<close>

definition api_session ::
  "db \<Rightarrow> string \<Rightarrow> string \<Rightarrow> int \<Rightarrow> string \<Rightarrow> string \<Rightarrow>
   string option \<Rightarrow> string option \<Rightarrow> jsval \<Rightarrow> db \<times> reply" where
  \<comment> \<open>\<open>uuid1\<close> and \<open>uuid2\<close> are the two results of \<^verbatim>\<open>uuidv4()\<close>, \<open>now\<close> is
      \<^verbatim>\<open>Date.now()\<close>, \<open>protocol\<close> and \<open>host\<close> are the request's.
      \<open>expiresAt\<close> is computed on integers; the source computes it on doubles, which
      is the same value where \<open>exact_ms startAt m\<close> holds and a rounded one beyond.\<close>
  "api_session d uuid1 uuid2 now protocol host facultyId sectionId durationMinutes =
     (if \<not> truthy_str facultyId \<or> \<not> truthy_str sectionId then (d, Reply 400 (Error ''Missing fields''))
      else case find (\<lambda>u. u_id u = text_of facultyId \<and> u_role u = ''faculty'') (users d) of
        None \<Rightarrow> (d, Reply 400 (Error ''Invalid faculty''))
      | Some faculty \<Rightarrow>
        (case find (\<lambda>s. sec_id s = text_of sectionId) (sections d) of
          None \<Rightarrow> (d, Reply 400 (Error ''Invalid section''))
        | Some section \<Rightarrow>
          (let idv = uuid1;
               tok = takeWhile (\<lambda>c. c \<noteq> CHR ''-'') uuid2;
               startAt = now;
               expiresAt = map_option (\<lambda>m. startAt + m * 60 * 1000)
                             (parseInt (toString (js_or durationMinutes (JNumber 30))))
           in if idv \<in> s_id ` set (sessions d) then (d, Reply 500 DbFailure)
              else (d\<lparr>sessions := sessions d @
                        [\<lparr>s_id = idv, s_section_id = text_of sectionId, s_token = tok,
                          s_start_at = startAt, s_expires_at = expiresAt\<rparr>]\<rparr>,
                    Reply 200 (SessionCreated idv tok expiresAt
                      (protocol @ ''://'' @ host @ ''/scan?session='' @ idv @ ''&token='' @ tok))))))"

subsection \<open>Check-in validator\<close>

definition api_checkin ::
  "db \<Rightarrow> string \<Rightarrow> int \<Rightarrow> int \<Rightarrow> string option \<Rightarrow> string option \<Rightarrow> string option \<Rightarrow> db \<times> reply" where
  \<comment> \<open>\<open>recId\<close> is the result of \<^verbatim>\<open>uuidv4()\<close>; \<open>now1\<close> and \<open>now2\<close> are the two
      readings of \<^verbatim>\<open>Date.now()\<close>, at the expiry check and at the insert.\<close>
  "api_checkin d recId now1 now2 sessionId token studentId =
     (if \<not> truthy_str sessionId \<or> \<not> truthy_str token \<or> \<not> truthy_str studentId
      then (d, Reply 400 (Error ''Missing params''))
      else case find (\<lambda>s. s_id s = text_of sessionId) (sessions d) of
        None \<Rightarrow> (d, Reply 404 (Error ''Session not found''))
      | Some session \<Rightarrow>
        if s_token session \<noteq> text_of token then (d, Reply 403 (Error ''Invalid token''))
        else if js_gt now1 (s_expires_at session) then (d, Reply 403 (Error ''Session expired''))
        else
         (case find (\<lambda>u. u_id u = text_of studentId \<and> u_role u = ''student'') (users d) of
            None \<Rightarrow> (d, Reply 403 (Error ''Student not found''))
          | Some student \<Rightarrow>
            (case find (\<lambda>a. a_session_id a = text_of sessionId \<and> a_student_id a = text_of studentId)
                    (attendance d) of
              Some existing \<Rightarrow> (d, Reply 409 (Error ''Already checked in''))
            | None \<Rightarrow>
              if recId \<in> a_id ` set (attendance d) then (d, Reply 500 DbFailure)
              else (d\<lparr>attendance := attendance d @
                        [\<lparr>a_id = recId, a_session_id = text_of sessionId,
                          a_student_id = text_of studentId, a_status = ''present'',
                          a_checkin_time = now2, a_method = ''qr''\<rparr>]\<rparr>,
                    Reply 200 (SuccessMessage ''Checked in'')))))"

subsection \<open>CSV report\<close>

definition csv_data :: "db \<Rightarrow> string list \<Rightarrow> csv_row list" where
  \<comment> \<open>the rows of \<^verbatim>\<open>attendance a LEFT JOIN sessions s ON s.id=a.session_id WHERE
      a.session_id IN (ids)\<close>, mapped to the exported columns; \<^verbatim>\<open>checkin_time\<close> is
      kept as the number of milliseconds, its ISO-8601 rendering is not modelled.\<close>
  "csv_data d ids =
     concat (map (\<lambda>a.
        (case filter (\<lambda>s. s_id s = a_session_id a) (sessions d) of
           [] \<Rightarrow> [\<lparr>attendance_id = a_id a, session_id = a_session_id a, section_id = None,
                   student_id = a_student_id a, status = a_status a,
                   checkin_time = a_checkin_time a, method_col = a_method a\<rparr>]
         | ss \<Rightarrow> map (\<lambda>s. \<lparr>attendance_id = a_id a, session_id = a_session_id a,
                   section_id = Some (s_section_id s),
                   student_id = a_student_id a, status = a_status a,
                   checkin_time = a_checkin_time a, method_col = a_method a\<rparr>) ss))
        (filter (\<lambda>a. a_session_id a \<in> set ids) (attendance d)))"

definition report_csv :: "db \<Rightarrow> string option \<Rightarrow> reply" where
  "report_csv d section =
     (let sessions' = (if truthy_str section
                       then filter (\<lambda>s. s_section_id s = text_of section) (sessions d)
                       else sessions d);
          ids = map s_id sessions'
      in if length ids = 0 then Reply 200 (Text ''No sessions'')
         else Reply 200 (Csv (csv_data d ids)))"

section \<open>Runs of the system\<close>

datatype event =
    InitDb
  | FacultyAdd "string option" "string option"
  | FacultyDelete string
  | CreateSession string string int string string "string option" "string option" jsval
  | Checkin string int int "string option" "string option" "string option"

fun step :: "db \<Rightarrow> event \<Rightarrow> db" where
  "step d InitDb = initDb d"
| "step d (FacultyAdd i n) = fst (api_faculty_add d i n)"
| "step d (FacultyDelete i) = fst (api_faculty_delete d i)"
| "step d (CreateSession u1 u2 now p h f s m) = fst (api_session d u1 u2 now p h f s m)"
| "step d (Checkin r t1 t2 s k u) = fst (api_checkin d r t1 t2 s k u)"

definition run :: "db \<Rightarrow> event list \<Rightarrow> db" where
  "run d evs = foldl step d evs"

definition empty_db :: db where
  "empty_db = \<lparr>users = [], sections = [], sessions = [], attendance = []\<rparr>"

section \<open>The validation checks, one by one\<close>

text \<open>
  The five checks of the check-in validator as separate predicates, in the order in
  which the specification lists them, each with the response the handler gives for it.
  \<open>check_fails\<close> reads the first session row with the given id, as the handler's
  \<^verbatim>\<open>getSql\<close> does; the token and expiry checks say nothing when there is none.
\<close>

datatype failure =
  SessionNotFound | InvalidToken | SessionExpired | StudentNotFound | DuplicateCheckin

definition checks_in_order :: "failure list" where
  "checks_in_order =
     [SessionNotFound, InvalidToken, SessionExpired, StudentNotFound, DuplicateCheckin]"

fun check_fails :: "db \<Rightarrow> int \<Rightarrow> string \<Rightarrow> string \<Rightarrow> string \<Rightarrow> failure \<Rightarrow> bool" where
  "check_fails d now sid tok stu SessionNotFound = (sid \<notin> s_id ` set (sessions d))"
| "check_fails d now sid tok stu InvalidToken =
     (case find (\<lambda>s. s_id s = sid) (sessions d) of
        None \<Rightarrow> False | Some s \<Rightarrow> s_token s \<noteq> tok)"
| "check_fails d now sid tok stu SessionExpired =
     (case find (\<lambda>s. s_id s = sid) (sessions d) of
        None \<Rightarrow> False | Some s \<Rightarrow> js_gt now (s_expires_at s))"
| "check_fails d now sid tok stu StudentNotFound =
     ((stu, ''student'') \<notin> (\<lambda>u. (u_id u, u_role u)) ` set (users d))"
| "check_fails d now sid tok stu DuplicateCheckin =
     ((sid, stu) \<in> (\<lambda>a. (a_session_id a, a_student_id a)) ` set (attendance d))"

fun failure_reply :: "failure \<Rightarrow> reply" where
  "failure_reply SessionNotFound = Reply 404 (Error ''Session not found'')"
| "failure_reply InvalidToken = Reply 403 (Error ''Invalid token'')"
| "failure_reply SessionExpired = Reply 403 (Error ''Session expired'')"
| "failure_reply StudentNotFound = Reply 403 (Error ''Student not found'')"
| "failure_reply DuplicateCheckin = Reply 409 (Error ''Already checked in'')"

definition one_per_pair :: "db \<Rightarrow> bool" where
  \<comment> \<open>at most one attendance record for each pair of session and student\<close>
  "one_per_pair d = distinct (map (\<lambda>a. (a_session_id a, a_student_id a)) (attendance d))"

definition exact_ms :: "int \<Rightarrow> int \<Rightarrow> bool" where
  \<comment> \<open>every value of \<^verbatim>\<open>startAt + m*60*1000\<close> is a safe integer, so that the
      source's double arithmetic is the integer arithmetic written here\<close>
  "exact_ms startAt m =
     (safe_integer startAt \<and> safe_integer m \<and> safe_integer (m * 60) \<and>
      safe_integer (m * 60 * 1000) \<and> safe_integer (startAt + m * 60 * 1000))"

section \<open>A small database\<close>

text \<open>
  The seeded rows and one session \<open>s1\<close> of section \<open>sec101\<close>, created at time
  1000 for one minute.
\<close>

definition demo_db :: db where
  "demo_db =
     \<lparr>users = seed_users, sections = [seed_section],
      sessions = [\<lparr>s_id = ''s1'', s_section_id = ''sec101'', s_token = ''deadbeef'',
                   s_start_at = 1000, s_expires_at = Some 61000\<rparr>],
      attendance = []\<rparr>"

definition demo_row :: attendance_row where
  "demo_row =
     \<lparr>a_id = ''r1'', a_session_id = ''s1'', a_student_id = ''stu1'', a_status = ''present'',
      a_checkin_time = 61000, a_method = ''qr''\<rparr>"

section \<open>Reading back a printed number\<close>

lemma of_char_digit_char: "d < 10 \<Longrightarrow> (of_char (digit_char d) :: nat) = 48 + d"
  by (simp add: digit_char_def)

lemma isDigit_digit_char: "d < 10 \<Longrightarrow> isDigit (digit_char d)"
  by (simp add: isDigit_def of_char_digit_char)

lemma digitVal_digit_char: "d < 10 \<Longrightarrow> digitVal (digit_char d) = d"
  by (simp add: digitVal_def of_char_digit_char)

lemma isDigit_not_ws: "isDigit c \<Longrightarrow> \<not> isWhiteSpace c"
  by (auto simp: isDigit_def isWhiteSpace_def)

lemma isDigit_not_sign: "isDigit c \<Longrightarrow> c \<noteq> CHR ''-'' \<and> c \<noteq> CHR ''+''"
  by (auto simp: isDigit_def)

lemma digits_all_digit: "\<forall>c\<in>set (digits n). isDigit c"
proof (induction n rule: digits.induct)
  case (1 n)
  show ?case
  proof (cases "n < 10")
    case True
    then show ?thesis by (simp add: digits.simps [of n] isDigit_digit_char)
  next
    case False
    with 1 show ?thesis by (simp add: digits.simps [of n] isDigit_digit_char)
  qed
qed

lemma digits_nonempty: "digits n \<noteq> []"
  by (subst digits.simps) simp

lemma digitsValue_snoc: "digitsValue (z @ [c]) = 10 * digitsValue z + digitVal c"
  by (simp add: digitsValue_def)

lemma digitsValue_digits: "digitsValue (digits n) = n"
proof (induction n rule: digits.induct)
  case (1 n)
  show ?case
  proof (cases "n < 10")
    case True
    then show ?thesis by (simp add: digits.simps [of n] digitsValue_def digitVal_digit_char)
  next
    case False
    with 1 have "digitsValue (digits (n div 10)) = n div 10" by simp
    with False show ?thesis
      by (simp add: digits.simps [of n] digitsValue_snoc digitVal_digit_char)
  qed
qed

lemma parseInt_unsigned:
  assumes "s \<noteq> []" and "\<forall>c\<in>set s. isDigit c"
  shows "parseInt s = Some (int (digitsValue s))"
proof -
  from assms obtain c r where s: "s = c # r" and c: "isDigit c"
    by (cases s) auto
  have dw: "dropWhile isWhiteSpace s = s"
    using s c by (simp add: isDigit_not_ws)
  have sg: "(case s of c # _ \<Rightarrow> if c = CHR ''-'' then - 1 else 1 | [] \<Rightarrow> 1) = (1::int)"
    using s isDigit_not_sign [OF c] by simp
  have rest: "(case s of c # r \<Rightarrow> if c = CHR ''-'' \<or> c = CHR ''+'' then r else s | [] \<Rightarrow> s) = s"
    using s isDigit_not_sign [OF c] by simp
  have tw: "takeWhile isDigit s = s"
    using assms(2) by (simp add: takeWhile_eq_all_conv)
  show ?thesis
    unfolding parseInt_def Let_def dw sg rest tw using assms(1) by simp
qed

lemma parseInt_negative:
  assumes "s \<noteq> []" and "\<forall>c\<in>set s. isDigit c"
  shows "parseInt (CHR ''-'' # s) = Some (- int (digitsValue s))"
proof -
  have dw: "dropWhile isWhiteSpace (CHR ''-'' # s) = CHR ''-'' # s"
    by (simp add: isWhiteSpace_def)
  have sg: "(case CHR ''-'' # s of c # _ \<Rightarrow> if c = CHR ''-'' then - 1 else 1 | [] \<Rightarrow> 1) = (- 1::int)"
    by simp
  have rest: "(case CHR ''-'' # s of c # r \<Rightarrow> if c = CHR ''-'' \<or> c = CHR ''+'' then r else CHR ''-'' # s
               | [] \<Rightarrow> CHR ''-'' # s) = s"
    by simp
  have tw: "takeWhile isDigit s = s"
    using assms(2) by (simp add: takeWhile_eq_all_conv)
  show ?thesis
    unfolding parseInt_def Let_def dw sg rest tw using assms(1) by simp
qed

lemma parseInt_toString_JNumber: "parseInt (toString (JNumber n)) = Some n"
  by (simp add: parseInt_unsigned parseInt_negative digits_nonempty digits_all_digit
      digitsValue_digits)

lemma parseInt_digits: "parseInt (digits k) = Some (int k)"
  by (simp add: parseInt_unsigned digits_nonempty digits_all_digit digitsValue_digits)

section \<open>The check-in validator\<close>

lemma session_lookup_None:
  "(find (\<lambda>s. s_id s = sid) (sessions d) = None) = (sid \<notin> s_id ` set (sessions d))"
  by (auto simp: find_None_iff)

lemma student_lookup_None:
  "(find (\<lambda>u. u_id u = stu \<and> u_role u = ''student'') (users d) = None) =
   ((stu, ''student'') \<notin> (\<lambda>u. (u_id u, u_role u)) ` set (users d))"
  by (auto simp: find_None_iff image_iff)

lemma attendance_lookup_None:
  "(find (\<lambda>a. a_session_id a = sid \<and> a_student_id a = stu) (attendance d) = None) =
   ((sid, stu) \<notin> (\<lambda>a. (a_session_id a, a_student_id a)) ` set (attendance d))"
  by (auto simp: find_None_iff image_iff)

lemma api_checkin_missing:
  "\<not> truthy_str a \<or> \<not> truthy_str b \<or> \<not> truthy_str c \<Longrightarrow>
   api_checkin d r t1 t2 a b c = (d, Reply 400 (Error ''Missing params''))"
  by (auto simp: api_checkin_def)

lemma api_checkin_no_session:
  "\<lbrakk>sid \<noteq> []; tok \<noteq> []; stu \<noteq> []; find (\<lambda>s. s_id s = sid) (sessions d) = None\<rbrakk> \<Longrightarrow>
   api_checkin d r t1 t2 (Some sid) (Some tok) (Some stu) = (d, Reply 404 (Error ''Session not found''))"
  by (simp add: api_checkin_def)

lemma api_checkin_bad_token:
  "\<lbrakk>sid \<noteq> []; tok \<noteq> []; stu \<noteq> []; find (\<lambda>s. s_id s = sid) (sessions d) = Some s;
    s_token s \<noteq> tok\<rbrakk> \<Longrightarrow>
   api_checkin d r t1 t2 (Some sid) (Some tok) (Some stu) = (d, Reply 403 (Error ''Invalid token''))"
  by (simp add: api_checkin_def)

lemma api_checkin_expired:
  "\<lbrakk>sid \<noteq> []; tok \<noteq> []; stu \<noteq> []; find (\<lambda>s. s_id s = sid) (sessions d) = Some s;
    s_token s = tok; js_gt t1 (s_expires_at s)\<rbrakk> \<Longrightarrow>
   api_checkin d r t1 t2 (Some sid) (Some tok) (Some stu) = (d, Reply 403 (Error ''Session expired''))"
  by (simp add: api_checkin_def)

lemma api_checkin_no_student:
  "\<lbrakk>sid \<noteq> []; tok \<noteq> []; stu \<noteq> []; find (\<lambda>s. s_id s = sid) (sessions d) = Some s;
    s_token s = tok; \<not> js_gt t1 (s_expires_at s);
    find (\<lambda>u. u_id u = stu \<and> u_role u = ''student'') (users d) = None\<rbrakk> \<Longrightarrow>
   api_checkin d r t1 t2 (Some sid) (Some tok) (Some stu) = (d, Reply 403 (Error ''Student not found''))"
  by (simp add: api_checkin_def)

lemma api_checkin_duplicate:
  "\<lbrakk>sid \<noteq> []; tok \<noteq> []; stu \<noteq> []; find (\<lambda>s. s_id s = sid) (sessions d) = Some s;
    s_token s = tok; \<not> js_gt t1 (s_expires_at s);
    find (\<lambda>u. u_id u = stu \<and> u_role u = ''student'') (users d) = Some u;
    find (\<lambda>a. a_session_id a = sid \<and> a_student_id a = stu) (attendance d) = Some a\<rbrakk> \<Longrightarrow>
   api_checkin d r t1 t2 (Some sid) (Some tok) (Some stu) = (d, Reply 409 (Error ''Already checked in''))"
  by (simp add: api_checkin_def)

lemma api_checkin_passed:
  "\<lbrakk>sid \<noteq> []; tok \<noteq> []; stu \<noteq> []; find (\<lambda>s. s_id s = sid) (sessions d) = Some s;
    s_token s = tok; \<not> js_gt t1 (s_expires_at s);
    find (\<lambda>u. u_id u = stu \<and> u_role u = ''student'') (users d) = Some u;
    find (\<lambda>a. a_session_id a = sid \<and> a_student_id a = stu) (attendance d) = None\<rbrakk> \<Longrightarrow>
   api_checkin d r t1 t2 (Some sid) (Some tok) (Some stu) =
     (if r \<in> a_id ` set (attendance d) then (d, Reply 500 DbFailure)
      else (d\<lparr>attendance := attendance d @
                [\<lparr>a_id = r, a_session_id = sid, a_student_id = stu, a_status = ''present'',
                  a_checkin_time = t2, a_method = ''qr''\<rparr>]\<rparr>,
            Reply 200 (SuccessMessage ''Checked in'')))"
  by (simp add: api_checkin_def)

lemma first_failure_cases:
  "find (check_fails d now sid tok stu) checks_in_order =
     (if check_fails d now sid tok stu SessionNotFound then Some SessionNotFound
      else if check_fails d now sid tok stu InvalidToken then Some InvalidToken
      else if check_fails d now sid tok stu SessionExpired then Some SessionExpired
      else if check_fails d now sid tok stu StudentNotFound then Some StudentNotFound
      else if check_fails d now sid tok stu DuplicateCheckin then Some DuplicateCheckin
      else None)"
  by (simp add: checks_in_order_def del: check_fails.simps)

lemma api_checkin_by_checks:
  assumes "sid \<noteq> []" and "tok \<noteq> []" and "stu \<noteq> []"
  shows "api_checkin d recId now1 now2 (Some sid) (Some tok) (Some stu)
           = (case find (check_fails d now1 sid tok stu) checks_in_order of
                Some f \<Rightarrow> (d, failure_reply f)
              | None \<Rightarrow>
                  if recId \<in> a_id ` set (attendance d) then (d, Reply 500 DbFailure)
                  else (d\<lparr>attendance := attendance d @
                            [\<lparr>a_id = recId, a_session_id = sid, a_student_id = stu,
                              a_status = ''present'', a_checkin_time = now2, a_method = ''qr''\<rparr>]\<rparr>,
                        Reply 200 (SuccessMessage ''Checked in'')))"
proof (cases "find (\<lambda>s. s_id s = sid) (sessions d)")
  case None
  then have "check_fails d now1 sid tok stu SessionNotFound"
    using session_lookup_None [of sid d] by simp
  with None assms show ?thesis
    by (simp add: first_failure_cases api_checkin_no_session del: check_fails.simps)
next
  case (Some s)
  then have snf: "\<not> check_fails d now1 sid tok stu SessionNotFound"
    using session_lookup_None [of sid d] by simp
  show ?thesis
  proof (cases "s_token s = tok")
    case False
    with Some have "check_fails d now1 sid tok stu InvalidToken" by simp
    with snf Some False assms show ?thesis
      by (simp add: first_failure_cases api_checkin_bad_token del: check_fails.simps)
  next
    case True
    with Some have it: "\<not> check_fails d now1 sid tok stu InvalidToken" by simp
    show ?thesis
    proof (cases "js_gt now1 (s_expires_at s)")
      case True
      with Some have "check_fails d now1 sid tok stu SessionExpired" by simp
      with snf it Some \<open>s_token s = tok\<close> True assms show ?thesis
        by (simp add: first_failure_cases api_checkin_expired del: check_fails.simps)
    next
      case False
      with Some have se: "\<not> check_fails d now1 sid tok stu SessionExpired" by simp
      show ?thesis
      proof (cases "find (\<lambda>u. u_id u = stu \<and> u_role u = ''student'') (users d)")
        case None
        then have "check_fails d now1 sid tok stu StudentNotFound"
          using student_lookup_None [of stu d] by simp
        with snf it se Some \<open>s_token s = tok\<close> False None assms show ?thesis
          by (simp add: first_failure_cases api_checkin_no_student del: check_fails.simps)
      next
        case u: (Some u)
        then have st: "\<not> check_fails d now1 sid tok stu StudentNotFound"
          using student_lookup_None [of stu d] by simp
        show ?thesis
        proof (cases "find (\<lambda>a. a_session_id a = sid \<and> a_student_id a = stu) (attendance d)")
          case None
          then have "\<not> check_fails d now1 sid tok stu DuplicateCheckin"
            using attendance_lookup_None [of sid stu d] by simp
          with snf it se st Some \<open>s_token s = tok\<close> False u None assms show ?thesis
            by (simp add: first_failure_cases api_checkin_passed del: check_fails.simps)
        next
          case a: (Some a)
          then have "check_fails d now1 sid tok stu DuplicateCheckin"
            using attendance_lookup_None [of sid stu d] by simp
          with snf it se st Some \<open>s_token s = tok\<close> False u a assms show ?thesis
            by (simp add: first_failure_cases api_checkin_duplicate del: check_fails.simps)
        qed
      qed
    qed
  qed
qed

lemma api_checkin_state:
  "fst (api_checkin d r t1 t2 a b c) = d \<and>
     snd (api_checkin d r t1 t2 a b c) \<noteq> Reply 200 (SuccessMessage ''Checked in'')
   \<or> snd (api_checkin d r t1 t2 a b c) = Reply 200 (SuccessMessage ''Checked in'') \<and>
     find (\<lambda>x. a_session_id x = text_of a \<and> a_student_id x = text_of c) (attendance d) = None \<and>
     fst (api_checkin d r t1 t2 a b c) = d\<lparr>attendance := attendance d @
       [\<lparr>a_id = r, a_session_id = text_of a, a_student_id = text_of c, a_status = ''present'',
         a_checkin_time = t2, a_method = ''qr''\<rparr>]\<rparr>"
  by (simp add: api_checkin_def split: option.splits)

lemma find_append_None:
  "find P xs = None \<Longrightarrow> find P (xs @ ys) = find P ys"
  by (induction xs) (auto split: if_splits)

lemma find_append_Some: "find P xs = Some x \<Longrightarrow> find P (xs @ ys) = Some x"
  by (induction xs) (auto split: if_splits)

lemma find_filter_keep: "(\<And>x. P x \<Longrightarrow> Q x) \<Longrightarrow> find P (filter Q xs) = find P xs"
  by (induction xs) auto

lemma api_checkin_success_facts:
  assumes "api_checkin d r t1 t2 (Some sid) (Some tok) (Some stu)
             = (d', Reply 200 (SuccessMessage ''Checked in''))"
  shows "sid \<noteq> [] \<and> tok \<noteq> [] \<and> stu \<noteq> []
       \<and> (\<exists>s. find (\<lambda>s. s_id s = sid) (sessions d') = Some s \<and> s_token s = tok
              \<and> find (\<lambda>s. s_id s = sid) (sessions d) = Some s)
       \<and> (\<exists>u. find (\<lambda>u. u_id u = stu \<and> u_role u = ''student'') (users d') = Some u)
       \<and> (\<exists>a. find (\<lambda>a. a_session_id a = sid \<and> a_student_id a = stu) (attendance d') = Some a)"
  using assms
  by (auto simp: api_checkin_def find_append_None split: if_splits option.splits)

section \<open>The other handlers\<close>

lemma faculty_lookup_None:
  "(find (\<lambda>u. u_id u = fid \<and> u_role u = ''faculty'') (users d) = None) =
   ((fid, ''faculty'') \<notin> (\<lambda>u. (u_id u, u_role u)) ` set (users d))"
  by (auto simp: find_None_iff image_iff)

lemma distinct_ids_one_role:
  assumes "distinct (map u_id us)" and "u \<in> set us" and "v \<in> set us" and "u_id u = u_id v"
  shows "u = v"
  using assms by (meson distinct_map inj_onD)

lemma duration_default:
  "\<not> truthy m \<Longrightarrow> parseInt (toString (js_or m (JNumber 30))) = Some 30"
  by (simp add: js_or_def parseInt_toString_JNumber del: toString.simps)

lemma duration_number:
  "n \<noteq> 0 \<Longrightarrow> parseInt (toString (js_or (JNumber n) (JNumber 30))) = Some n"
  by (simp add: js_or_def parseInt_toString_JNumber del: toString.simps)

lemma duration_digits:
  "parseInt (toString (js_or (JString (digits k)) (JNumber 30))) = Some (int k)"
  by (simp add: js_or_def parseInt_digits digits_nonempty)

lemma duration_digit_string:
  assumes "s \<noteq> []" and "\<forall>c\<in>set s. isDigit c"
  shows "parseInt (toString (js_or (JString s) (JNumber 30))) = Some (int (digitsValue s))"
  using assms by (simp add: js_or_def parseInt_unsigned)

lemma api_session_created:
  assumes "api_session d uuid1 uuid2 now protocol host facultyId sectionId m =
             (d', Reply 200 (SessionCreated sid tok exp url))"
  shows "sessions d' = sessions d @
           [\<lparr>s_id = sid, s_section_id = text_of sectionId, s_token = tok, s_start_at = now,
             s_expires_at = exp\<rparr>]
         \<and> exp = map_option (\<lambda>k. now + k * 60 * 1000) (parseInt (toString (js_or m (JNumber 30))))"
  using assms
  by (auto simp: api_session_def Let_def split: if_splits option.splits)

lemma api_session_state:
  "users (fst (api_session d u1 u2 now p h f s m)) = users d
   \<and> sections (fst (api_session d u1 u2 now p h f s m)) = sections d
   \<and> attendance (fst (api_session d u1 u2 now p h f s m)) = attendance d
   \<and> (\<exists>new. sessions (fst (api_session d u1 u2 now p h f s m)) = sessions d @ new)"
  by (simp add: api_session_def Let_def split: option.splits)

lemma api_faculty_add_state:
  "sessions (fst (api_faculty_add d i n)) = sessions d
   \<and> sections (fst (api_faculty_add d i n)) = sections d
   \<and> attendance (fst (api_faculty_add d i n)) = attendance d
   \<and> (\<exists>new. users (fst (api_faculty_add d i n)) = users d @ new)"
  by (simp add: api_faculty_add_def)

section \<open>What every operation preserves\<close>

lemma step_sessions: "\<exists>new. sessions (step d ev) = sessions d @ new"
proof (cases ev)
  case InitDb
  then show ?thesis by (simp add: initDb_def)
next
  case (FacultyAdd i n)
  with api_faculty_add_state [of d i n] show ?thesis by auto
next
  case (FacultyDelete i)
  then show ?thesis by (simp add: api_faculty_delete_def)
next
  case (CreateSession u1 u2 now p h f s m)
  with api_session_state [of d u1 u2 now p h f s m] show ?thesis by auto
next
  case (Checkin r t1 t2 s k u)
  with api_checkin_state [of d r t1 t2 s k u] show ?thesis by auto
qed

lemma step_attendance:
  "attendance (step d ev) = attendance d
   \<or> (\<exists>r t1 t2 s k u row. ev = Checkin r t1 t2 s k u \<and>
        snd (api_checkin d r t1 t2 s k u) = Reply 200 (SuccessMessage ''Checked in'') \<and>
        attendance (step d ev) = attendance d @ [row])"
proof (cases ev)
  case InitDb
  then show ?thesis by (simp add: initDb_def)
next
  case (FacultyAdd i n)
  with api_faculty_add_state [of d i n] show ?thesis by auto
next
  case (FacultyDelete i)
  then show ?thesis by (simp add: api_faculty_delete_def)
next
  case (CreateSession u1 u2 now p h f s m)
  with api_session_state [of d u1 u2 now p h f s m] show ?thesis by auto
next
  case (Checkin r t1 t2 s k u)
  with api_checkin_state [of d r t1 t2 s k u] show ?thesis by auto
qed

lemma step_student:
  assumes "find (\<lambda>u. u_id u = stu \<and> u_role u = ''student'') (users d) = Some u"
  shows "find (\<lambda>u. u_id u = stu \<and> u_role u = ''student'') (users (step d ev)) = Some u"
proof (cases ev)
  case InitDb
  from assms have "users d \<noteq> []" by auto
  with InitDb assms show ?thesis by (simp add: initDb_def)
next
  case (FacultyAdd i n)
  with api_faculty_add_state [of d i n] assms show ?thesis
    by (auto simp: find_append_Some)
next
  case (FacultyDelete i)
  have "find (\<lambda>u. u_id u = stu \<and> u_role u = ''student'')
          (filter (\<lambda>u. \<not> (u_id u = i \<and> u_role u = ''faculty'')) (users d))
        = find (\<lambda>u. u_id u = stu \<and> u_role u = ''student'') (users d)"
    by (rule find_filter_keep) simp
  with FacultyDelete assms show ?thesis by (simp add: api_faculty_delete_def)
next
  case (CreateSession u1 u2 now p h f s m)
  with api_session_state [of d u1 u2 now p h f s m] assms show ?thesis by auto
next
  case (Checkin r t1 t2 s k u)
  with api_checkin_state [of d r t1 t2 s k u] assms show ?thesis by auto
qed

lemma step_one_per_pair:
  assumes "one_per_pair d"
  shows "one_per_pair (step d ev)"
proof (cases ev)
  case (Checkin r t1 t2 s k u)
  from api_checkin_state [of d r t1 t2 s k u] show ?thesis
  proof (elim disjE conjE)
    assume "fst (api_checkin d r t1 t2 s k u) = d"
    with Checkin assms show ?thesis by simp
  next
    assume none: "find (\<lambda>x. a_session_id x = text_of s \<and> a_student_id x = text_of u) (attendance d) = None"
      and st: "fst (api_checkin d r t1 t2 s k u) = d\<lparr>attendance := attendance d @
       [\<lparr>a_id = r, a_session_id = text_of s, a_student_id = text_of u, a_status = ''present'',
         a_checkin_time = t2, a_method = ''qr''\<rparr>]\<rparr>"
    from none have "(text_of s, text_of u) \<notin> (\<lambda>a. (a_session_id a, a_student_id a)) ` set (attendance d)"
      using attendance_lookup_None [of "text_of s" "text_of u" d] by simp
    with Checkin assms st show ?thesis by (simp add: one_per_pair_def)
  qed
next
  case InitDb
  with assms show ?thesis by (simp add: initDb_def one_per_pair_def)
next
  case (FacultyAdd i n)
  with api_faculty_add_state [of d i n] assms show ?thesis by (auto simp: one_per_pair_def)
next
  case (FacultyDelete i)
  with assms show ?thesis by (simp add: api_faculty_delete_def one_per_pair_def)
next
  case (CreateSession u1 u2 now p h f s m)
  with api_session_state [of d u1 u2 now p h f s m] assms show ?thesis
    by (auto simp: one_per_pair_def)
qed

lemma run_Nil: "run d [] = d"
  by (simp add: run_def)

lemma run_Cons: "run d (ev # evs) = run (step d ev) evs"
  by (simp add: run_def)

lemma run_one_per_pair: "one_per_pair d \<Longrightarrow> one_per_pair (run d evs)"
  by (induction evs arbitrary: d) (simp_all add: run_Nil run_Cons step_one_per_pair)

lemma run_sessions: "\<exists>new. sessions (run d evs) = sessions d @ new"
proof (induction evs arbitrary: d)
  case Nil
  show ?case by (simp add: run_Nil)
next
  case (Cons ev evs)
  from step_sessions obtain n1 where "sessions (step d ev) = sessions d @ n1" by blast
  moreover from Cons obtain n2 where "sessions (run (step d ev) evs) = sessions (step d ev) @ n2"
    by blast
  ultimately show ?case by (simp add: run_Cons)
qed

lemma run_attendance: "prefix (attendance d) (attendance (run d evs))"
proof (induction evs arbitrary: d)
  case Nil
  show ?case by (simp add: run_Nil)
next
  case (Cons ev evs)
  from step_attendance [of d ev] have "prefix (attendance d) (attendance (step d ev))"
    by auto
  with Cons [of "step d ev"] show ?case
    by (simp add: run_Cons)
qed

lemma run_student:
  "find (\<lambda>u. u_id u = stu \<and> u_role u = ''student'') (users d) = Some u \<Longrightarrow>
   find (\<lambda>u. u_id u = stu \<and> u_role u = ''student'') (users (run d evs)) = Some u"
  by (induction evs arbitrary: d) (simp_all add: run_Nil run_Cons step_student)

lemma run_session:
  assumes "find (\<lambda>s. s_id s = sid) (sessions d) = Some s"
  shows "find (\<lambda>s. s_id s = sid) (sessions (run d evs)) = Some s"
proof -
  from run_sessions obtain new where "sessions (run d evs) = sessions d @ new" by blast
  with assms show ?thesis by (simp add: find_append_Some)
qed

lemma run_attendance_lookup:
  assumes "find P (attendance d) = Some a"
  shows "find P (attendance (run d evs)) = Some a"
proof -
  from run_attendance [of d evs] obtain new where "attendance (run d evs) = attendance d @ new"
    by (auto simp: prefix_def)
  with assms show ?thesis by (simp add: find_append_Some)
qed

section \<open>The claims\<close>

subsection \<open>C1: the order of the checks\<close>

text \<open>
  Claim C1. With a session id, a token and a student id supplied, the handler reports
  the failure of the first check that fails, in the order SessionNotFound, InvalidToken,
  SessionExpired, StudentNotFound, DuplicateCheckin, and no validation error when none
  fails. In particular a wrong token is reported as InvalidToken whatever the time is,
  so also when the session has expired.
\<close>

theorem api_checkin_first_failing_check:
  assumes "sid \<noteq> []" and "tok \<noteq> []" and "stu \<noteq> []"
  shows "(\<forall>f. find (check_fails d now1 sid tok stu) checks_in_order = Some f \<longrightarrow>
            api_checkin d recId now1 now2 (Some sid) (Some tok) (Some stu) = (d, failure_reply f))
       \<and> (find (check_fails d now1 sid tok stu) checks_in_order = None \<longrightarrow>
            snd (api_checkin d recId now1 now2 (Some sid) (Some tok) (Some stu))
              \<in> {Reply 200 (SuccessMessage ''Checked in''), Reply 500 DbFailure})
       \<and> (check_fails d now1 sid tok stu InvalidToken \<longrightarrow>
            api_checkin d recId now1 now2 (Some sid) (Some tok) (Some stu)
              = (d, failure_reply InvalidToken))"
proof -
  note r = api_checkin_by_checks [OF assms, of d recId now1 now2]
  have wrong: "find (check_fails d now1 sid tok stu) checks_in_order = Some InvalidToken"
    if t: "check_fails d now1 sid tok stu InvalidToken"
  proof -
    from t obtain s where "find (\<lambda>s. s_id s = sid) (sessions d) = Some s"
      by (auto split: option.splits)
    then have "\<not> check_fails d now1 sid tok stu SessionNotFound"
      using session_lookup_None [of sid d] by simp
    with t show ?thesis by (simp add: first_failure_cases del: check_fails.simps)
  qed
  have 1: "\<forall>f. find (check_fails d now1 sid tok stu) checks_in_order = Some f \<longrightarrow>
            api_checkin d recId now1 now2 (Some sid) (Some tok) (Some stu) = (d, failure_reply f)"
    using r by simp
  have 2: "find (check_fails d now1 sid tok stu) checks_in_order = None \<longrightarrow>
            snd (api_checkin d recId now1 now2 (Some sid) (Some tok) (Some stu))
              \<in> {Reply 200 (SuccessMessage ''Checked in''), Reply 500 DbFailure}"
    using r by simp
  have 3: "check_fails d now1 sid tok stu InvalidToken \<longrightarrow>
            api_checkin d recId now1 now2 (Some sid) (Some tok) (Some stu)
              = (d, failure_reply InvalidToken)"
    using r wrong by simp
  from 1 2 3 show ?thesis by blast
qed

lemma demo_checks:
  "check_fails demo_db 70000 ''s1'' ''wrong'' ''stu1'' SessionNotFound = False"
  "check_fails demo_db 70000 ''s1'' ''wrong'' ''stu1'' InvalidToken = True"
  "check_fails demo_db 70000 ''s1'' ''wrong'' ''stu1'' SessionExpired = True"
  by (simp_all add: demo_db_def js_gt_def)

theorem api_checkin_first_failing_check_witness:
  "''s1'' \<noteq> [] \<and> ''wrong'' \<noteq> [] \<and> ''stu1'' \<noteq> []
   \<and> find (check_fails demo_db 70000 ''s1'' ''wrong'' ''stu1'') checks_in_order = Some InvalidToken
   \<and> check_fails demo_db 70000 ''s1'' ''wrong'' ''stu1'' SessionExpired
   \<and> api_checkin demo_db ''r1'' 70000 70001 (Some ''s1'') (Some ''wrong'') (Some ''stu1'')
       = (demo_db, Reply 403 (Error ''Invalid token''))"
proof -
  have f: "find (check_fails demo_db 70000 ''s1'' ''wrong'' ''stu1'') checks_in_order = Some InvalidToken"
    by (simp add: first_failure_cases demo_checks del: check_fails.simps)
  have n: "''s1'' \<noteq> []" "''wrong'' \<noteq> []" "''stu1'' \<noteq> []" by simp_all
  from api_checkin_first_failing_check [OF n, of demo_db 70000 "''r1''" 70001] f demo_checks(3)
  show ?thesis by simp
qed

subsection \<open>C2: expiry\<close>

text \<open>
  Claim C2 says that a check-in with the right token fails with SessionExpired when the
  current time is at or after \<^verbatim>\<open>expires_at\<close>. The handler compares with
  \<^verbatim>\<open>Date.now() > session.expires_at\<close>: at the deadline itself the session is
  still open, and the check-in below, made at time 61000 against a session that expires
  at 61000, succeeds.
\<close>

theorem api_checkin_expiry_boundary_counterexample:
  "map s_expires_at (sessions demo_db) = [Some 61000] \<and> (61000::int) \<ge> 61000
   \<and> api_checkin demo_db ''r1'' 61000 61000 (Some ''s1'') (Some ''deadbeef'') (Some ''stu1'')
       = (demo_db\<lparr>attendance := [demo_row]\<rparr>, Reply 200 (SuccessMessage ''Checked in''))"
  by (simp add: api_checkin_def demo_db_def demo_row_def seed_users_def js_gt_def)

text \<open>
  Claim C2, amended. With the right token and an existing session, the check-in fails
  with SessionExpired when the current time is after \<^verbatim>\<open>expires_at\<close>, and does not
  fail with SessionExpired when the current time is at or before it.
\<close>

theorem api_checkin_expired_after_deadline:
  assumes "sid \<noteq> []" and "tok \<noteq> []" and "stu \<noteq> []"
    and "find (\<lambda>s. s_id s = sid) (sessions d) = Some s"
    and "s_token s = tok"
    and "s_expires_at s = Some e"
  shows "(e < now1 \<longrightarrow>
            api_checkin d recId now1 now2 (Some sid) (Some tok) (Some stu)
              = (d, Reply 403 (Error ''Session expired'')))
       \<and> (now1 \<le> e \<longrightarrow>
            snd (api_checkin d recId now1 now2 (Some sid) (Some tok) (Some stu))
              \<noteq> Reply 403 (Error ''Session expired''))"
  using assms
  by (auto simp: api_checkin_def js_gt_def split: option.splits)

theorem api_checkin_expired_after_deadline_witness:
  "api_checkin demo_db ''r1'' 61001 61001 (Some ''s1'') (Some ''deadbeef'') (Some ''stu1'')
     = (demo_db, Reply 403 (Error ''Session expired''))
   \<and> snd (api_checkin demo_db ''r1'' 61000 61000 (Some ''s1'') (Some ''deadbeef'') (Some ''stu1''))
     \<noteq> Reply 403 (Error ''Session expired'')"
proof -
  have n: "''s1'' \<noteq> []" "''deadbeef'' \<noteq> []" "''stu1'' \<noteq> []" by simp_all
  have f: "find (\<lambda>s. s_id s = ''s1'') (sessions demo_db) = Some (hd (sessions demo_db))"
    by (simp add: demo_db_def)
  have t: "s_token (hd (sessions demo_db)) = ''deadbeef''"
    and e: "s_expires_at (hd (sessions demo_db)) = Some 61000"
    by (simp_all add: demo_db_def)
  from api_checkin_expired_after_deadline [OF n f t e, of 61001 "''r1''" 61001]
    api_checkin_expired_after_deadline [OF n f t e, of 61000 "''r1''" 61000]
  show ?thesis by simp
qed

subsection \<open>C3: one record for each session and student\<close>

text \<open>
  Claim C3 says that a second check-in with the same parameters returns
  DuplicateCheckin. The expiry check comes before the duplicate check: a first check-in
  at time 61000, the deadline of the session, succeeds, and the same request one
  millisecond later is answered SessionExpired.
\<close>

theorem second_checkin_counterexample:
  "api_checkin demo_db ''r1'' 61000 61000 (Some ''s1'') (Some ''deadbeef'') (Some ''stu1'')
     = (demo_db\<lparr>attendance := [demo_row]\<rparr>, Reply 200 (SuccessMessage ''Checked in''))
   \<and> api_checkin (demo_db\<lparr>attendance := [demo_row]\<rparr>) ''r2'' 61001 61001
        (Some ''s1'') (Some ''deadbeef'') (Some ''stu1'')
     = (demo_db\<lparr>attendance := [demo_row]\<rparr>, Reply 403 (Error ''Session expired''))"
  by (simp add: api_checkin_def demo_db_def demo_row_def seed_users_def js_gt_def)

text \<open>
  Claim C3, amended. Requests being handled one after the other, every operation keeps
  at most one attendance record for each pair of session and student, and so does every
  run from the empty database. After a successful check-in and any further operations,
  a check-in with the same session id, token and student id creates no record: it is
  answered DuplicateCheckin while the session has not expired, and SessionExpired once
  it has.
\<close>

theorem one_record_per_pair:
  "(one_per_pair d \<longrightarrow> one_per_pair (run d evs))
   \<and> one_per_pair (run empty_db evs)
   \<and> (api_checkin d r t1 t2 (Some sid) (Some tok) (Some stu)
         = (d', Reply 200 (SuccessMessage ''Checked in'')) \<longrightarrow>
       api_checkin (run d' evs) r' t1' t2' (Some sid) (Some tok) (Some stu)
         = (run d' evs,
            if check_fails d t1' sid tok stu SessionExpired
            then Reply 403 (Error ''Session expired'')
            else Reply 409 (Error ''Already checked in'')))"
proof -
  have inv: "one_per_pair d \<longrightarrow> one_per_pair (run d evs)"
    by (simp add: run_one_per_pair)
  have "one_per_pair empty_db"
    by (simp add: one_per_pair_def empty_db_def)
  then have init: "one_per_pair (run empty_db evs)"
    by (rule run_one_per_pair)
  have again: "api_checkin (run d' evs) r' t1' t2' (Some sid) (Some tok) (Some stu)
         = (run d' evs,
            if check_fails d t1' sid tok stu SessionExpired
            then Reply 403 (Error ''Session expired'')
            else Reply 409 (Error ''Already checked in''))"
    if ok: "api_checkin d r t1 t2 (Some sid) (Some tok) (Some stu)
         = (d', Reply 200 (SuccessMessage ''Checked in''))"
  proof -
    from api_checkin_success_facts [OF ok] obtain s u a
      where n: "sid \<noteq> []" "tok \<noteq> []" "stu \<noteq> []"
        and s: "find (\<lambda>s. s_id s = sid) (sessions d') = Some s" "s_token s = tok"
        and s0: "find (\<lambda>s. s_id s = sid) (sessions d) = Some s"
        and u: "find (\<lambda>u. u_id u = stu \<and> u_role u = ''student'') (users d') = Some u"
        and a: "find (\<lambda>a. a_session_id a = sid \<and> a_student_id a = stu) (attendance d') = Some a"
      by blast
    note s' = run_session [OF s(1), of evs]
    note u' = run_student [OF u, of evs]
    note a' = run_attendance_lookup [OF a, of evs]
    show ?thesis
    proof (cases "js_gt t1' (s_expires_at s)")
      case True
      with s0 have "check_fails d t1' sid tok stu SessionExpired" by simp
      with api_checkin_expired [OF n s' s(2) True] show ?thesis by simp
    next
      case False
      with s0 have "\<not> check_fails d t1' sid tok stu SessionExpired" by simp
      with api_checkin_duplicate [OF n s' s(2) False u' a'] show ?thesis by simp
    qed
  qed
  from inv init again show ?thesis by blast
qed

theorem one_record_per_pair_witness:
  "one_per_pair demo_db
   \<and> one_per_pair (run demo_db [Checkin ''r1'' 2000 2001 (Some ''s1'') (Some ''deadbeef'') (Some ''stu1'')])
   \<and> api_checkin demo_db ''r1'' 2000 2001 (Some ''s1'') (Some ''deadbeef'') (Some ''stu1'')
        = (demo_db\<lparr>attendance := [demo_row\<lparr>a_checkin_time := 2001\<rparr>]\<rparr>,
           Reply 200 (SuccessMessage ''Checked in''))
   \<and> api_checkin (run (demo_db\<lparr>attendance := [demo_row\<lparr>a_checkin_time := 2001\<rparr>]\<rparr>) [FacultyDelete ''stu1''])
        ''r2'' 3000 3001 (Some ''s1'') (Some ''deadbeef'') (Some ''stu1'')
        = (run (demo_db\<lparr>attendance := [demo_row\<lparr>a_checkin_time := 2001\<rparr>]\<rparr>) [FacultyDelete ''stu1''],
           Reply 409 (Error ''Already checked in''))"
proof -
  have i: "one_per_pair demo_db"
    by (simp add: one_per_pair_def demo_db_def)
  have ok: "api_checkin demo_db ''r1'' 2000 2001 (Some ''s1'') (Some ''deadbeef'') (Some ''stu1'')
        = (demo_db\<lparr>attendance := [demo_row\<lparr>a_checkin_time := 2001\<rparr>]\<rparr>,
           Reply 200 (SuccessMessage ''Checked in''))"
    by (simp add: api_checkin_def demo_db_def demo_row_def seed_users_def js_gt_def)
  have e: "\<not> check_fails demo_db 3000 ''s1'' ''deadbeef'' ''stu1'' SessionExpired"
    by (simp add: demo_db_def js_gt_def)
  from one_record_per_pair [of demo_db "[Checkin ''r1'' 2000 2001 (Some ''s1'') (Some ''deadbeef'') (Some ''stu1'')]"
      "''r1''" 2000 2001 "''s1''" "''deadbeef''" "''stu1''"
      "demo_db\<lparr>attendance := [demo_row\<lparr>a_checkin_time := 2001\<rparr>]\<rparr>" "''r2''" 3000 3001] i
  have "one_per_pair (run demo_db [Checkin ''r1'' 2000 2001 (Some ''s1'') (Some ''deadbeef'') (Some ''stu1'')])"
    by blast
  moreover
  from one_record_per_pair [of demo_db "[FacultyDelete ''stu1'']"
      "''r1''" 2000 2001 "''s1''" "''deadbeef''" "''stu1''"
      "demo_db\<lparr>attendance := [demo_row\<lparr>a_checkin_time := 2001\<rparr>]\<rparr>" "''r2''" 3000 3001] ok e
  have "api_checkin (run (demo_db\<lparr>attendance := [demo_row\<lparr>a_checkin_time := 2001\<rparr>]\<rparr>) [FacultyDelete ''stu1''])
        ''r2'' 3000 3001 (Some ''s1'') (Some ''deadbeef'') (Some ''stu1'')
        = (run (demo_db\<lparr>attendance := [demo_row\<lparr>a_checkin_time := 2001\<rparr>]\<rparr>) [FacultyDelete ''stu1''],
           Reply 409 (Error ''Already checked in''))"
    by simp
  ultimately show ?thesis using i ok by blast
qed

subsection \<open>C4: the deadline of a new session\<close>

text \<open>
  Claim C4 says that \<^verbatim>\<open>expires_at\<close> is \<^verbatim>\<open>start_at\<close> plus the requested
  duration for every value of the duration, 0 included. The handler reads the duration
  as \<^verbatim>\<open>parseInt(durationMinutes || 30, 10)\<close>, and the number 0 is falsy: a
  session requested at time 5000 with duration 0 expires at 5000 + 30 * 60000.
\<close>

theorem api_session_zero_duration_counterexample:
  "api_session demo_db ''s2'' ''cafe0123-aaaa'' 5000 ''http'' ''localhost:3001''
        (Some ''faculty1'') (Some ''sec101'') (JNumber 0)
     = (demo_db\<lparr>sessions := sessions demo_db @
          [\<lparr>s_id = ''s2'', s_section_id = ''sec101'', s_token = ''cafe0123'', s_start_at = 5000,
            s_expires_at = Some 1805000\<rparr>]\<rparr>,
        Reply 200 (SessionCreated ''s2'' ''cafe0123'' (Some 1805000)
          ''http://localhost:3001/scan?session=s2&token=cafe0123''))
   \<and> (1805000::int) \<noteq> 5000 + 0 * 60000"
  by (simp add: api_session_def demo_db_def seed_users_def seed_section_def js_or_def Let_def
      parseInt_toString_JNumber del: toString.simps)

text \<open>
  Claim C4, amended. A created session starts at the current time, and its
  \<^verbatim>\<open>expires_at\<close>, as stored and as returned, is \<^verbatim>\<open>start_at\<close> plus the duration
  \<open>d\<close> times 60000, where \<open>d\<close> is 30 when no duration is supplied (or
  \<^verbatim>\<open>null\<close>) or when the number 0 is supplied, the supplied number when that is a
  non-zero integer, and the decimal value of the text when the duration is supplied as a
  non-empty string of decimal digits (so the text \<^verbatim>\<open>"0"\<close> gives a duration of 0).
  This is stated in the range where the source's arithmetic is exact: \<open>start_at\<close>,
  \<open>d\<close>, \<open>d * 60\<close>, \<open>d * 60000\<close> and \<open>start_at + d * 60000\<close> are safe integers
  (of magnitude at most \<open>2^53 - 1\<close>). Nothing is stated beyond that range.
\<close>

theorem api_session_expires_at:
  assumes "api_session d uuid1 uuid2 now protocol host facultyId sectionId m =
             (d', Reply 200 (SessionCreated sid tok exp url))"
  shows "(\<exists>row. sessions d' = sessions d @ [row] \<and> s_start_at row = now \<and> s_expires_at row = exp)
       \<and> ((m = JUndefined \<or> m = JNull \<or> m = JNumber 0) \<and> exact_ms now 30 \<longrightarrow>
            exp = Some (now + 30 * 60000))
       \<and> (\<forall>n. m = JNumber n \<and> n \<noteq> 0 \<and> exact_ms now n \<longrightarrow> exp = Some (now + n * 60000))
       \<and> (\<forall>s. m = JString s \<and> s \<noteq> [] \<and> (\<forall>c\<in>set s. isDigit c) \<and>
              exact_ms now (int (digitsValue s)) \<longrightarrow>
            exp = Some (now + int (digitsValue s) * 60000))
       \<and> (\<forall>k. m = JString (digits k) \<and> exact_ms now (int k) \<longrightarrow> exp = Some (now + int k * 60000))"
proof -
  note c = api_session_created [OF assms]
  have e: "exp = map_option (\<lambda>k. now + k * 60 * 1000) (parseInt (toString (js_or m (JNumber 30))))"
    using c by simp
  have 1: "\<exists>row. sessions d' = sessions d @ [row] \<and> s_start_at row = now \<and> s_expires_at row = exp"
    using c by simp
  have 2: "\<not> truthy m \<longrightarrow> exp = Some (now + 30 * 60000)"
    using e by (simp add: duration_default)
  have 3: "m = JUndefined \<or> m = JNull \<or> m = JNumber 0 \<longrightarrow> \<not> truthy m"
    by auto
  have 4: "\<forall>n. m = JNumber n \<and> n \<noteq> 0 \<longrightarrow> exp = Some (now + n * 60000)"
    using e by (simp add: duration_number)
  have 5: "\<forall>s. m = JString s \<and> s \<noteq> [] \<and> (\<forall>c\<in>set s. isDigit c) \<longrightarrow>
            exp = Some (now + int (digitsValue s) * 60000)"
  proof (intro allI impI, elim conjE)
    fix s assume m: "m = JString s" and s: "s \<noteq> []" "\<forall>c\<in>set s. isDigit c"
    from e show "exp = Some (now + int (digitsValue s) * 60000)"
      unfolding m duration_digit_string [OF s] by simp
  qed
  have 6: "\<forall>k. m = JString (digits k) \<longrightarrow> exp = Some (now + int k * 60000)"
    using e by (simp add: duration_digits)
  from 1 2 3 4 5 6 show ?thesis by blast
qed

lemma demo_digits: "''007'' \<noteq> [] \<and> (\<forall>c\<in>set ''007''. isDigit c) \<and> digitsValue ''007'' = 7"
  by (simp add: isDigit_def digitsValue_def digitVal_def)

theorem api_session_expires_at_witness:
  "api_session demo_db ''s2'' ''cafe0123-aaaa'' 5000 ''http'' ''localhost:3001''
        (Some ''faculty1'') (Some ''sec101'') (JNumber 2)
     = (demo_db\<lparr>sessions := sessions demo_db @
          [\<lparr>s_id = ''s2'', s_section_id = ''sec101'', s_token = ''cafe0123'', s_start_at = 5000,
            s_expires_at = Some 125000\<rparr>]\<rparr>,
        Reply 200 (SessionCreated ''s2'' ''cafe0123'' (Some 125000)
          ''http://localhost:3001/scan?session=s2&token=cafe0123''))
   \<and> exact_ms 5000 2
   \<and> Some (125000::int) = Some (5000 + 2 * 60000)
   \<and> api_session demo_db ''s2'' ''cafe0123-aaaa'' 5000 ''http'' ''localhost:3001''
        (Some ''faculty1'') (Some ''sec101'') (JString ''007'')
     = (demo_db\<lparr>sessions := sessions demo_db @
          [\<lparr>s_id = ''s2'', s_section_id = ''sec101'', s_token = ''cafe0123'', s_start_at = 5000,
            s_expires_at = Some 425000\<rparr>]\<rparr>,
        Reply 200 (SessionCreated ''s2'' ''cafe0123'' (Some 425000)
          ''http://localhost:3001/scan?session=s2&token=cafe0123''))
   \<and> exact_ms 5000 (int (digitsValue ''007''))
   \<and> Some (425000::int) = Some (5000 + int (digitsValue ''007'') * 60000)"
proof -
  have r: "api_session demo_db ''s2'' ''cafe0123-aaaa'' 5000 ''http'' ''localhost:3001''
        (Some ''faculty1'') (Some ''sec101'') (JNumber 2)
     = (demo_db\<lparr>sessions := sessions demo_db @
          [\<lparr>s_id = ''s2'', s_section_id = ''sec101'', s_token = ''cafe0123'', s_start_at = 5000,
            s_expires_at = Some 125000\<rparr>]\<rparr>,
        Reply 200 (SessionCreated ''s2'' ''cafe0123'' (Some 125000)
          ''http://localhost:3001/scan?session=s2&token=cafe0123''))"
    by (simp add: api_session_def demo_db_def seed_users_def seed_section_def js_or_def Let_def
        parseInt_toString_JNumber del: toString.simps)
  have x: "exact_ms 5000 2"
    by (simp add: exact_ms_def safe_integer_def)
  have j: "JNumber 2 = JNumber 2 \<and> (2::int) \<noteq> 0 \<and> exact_ms 5000 2"
    using x by simp
  have "\<forall>n. JNumber 2 = JNumber n \<and> n \<noteq> 0 \<and> exact_ms 5000 n \<longrightarrow>
          Some (125000::int) = Some (5000 + n * 60000)"
    using api_session_expires_at [OF r] by (elim conjE)
  then have "JNumber 2 = JNumber 2 \<and> (2::int) \<noteq> 0 \<and> exact_ms 5000 2 \<longrightarrow>
          Some (125000::int) = Some (5000 + 2 * 60000)"
    by (rule spec)
  then have e: "Some (125000::int) = Some (5000 + 2 * 60000)"
    using j by (rule mp)
  have p: "parseInt ''007'' = Some 7"
    using parseInt_unsigned [of "''007''"] demo_digits by simp
  have r2: "api_session demo_db ''s2'' ''cafe0123-aaaa'' 5000 ''http'' ''localhost:3001''
        (Some ''faculty1'') (Some ''sec101'') (JString ''007'')
     = (demo_db\<lparr>sessions := sessions demo_db @
          [\<lparr>s_id = ''s2'', s_section_id = ''sec101'', s_token = ''cafe0123'', s_start_at = 5000,
            s_expires_at = Some 425000\<rparr>]\<rparr>,
        Reply 200 (SessionCreated ''s2'' ''cafe0123'' (Some 425000)
          ''http://localhost:3001/scan?session=s2&token=cafe0123''))"
    by (simp add: api_session_def demo_db_def seed_users_def seed_section_def js_or_def Let_def p)
  have x2: "exact_ms 5000 (int (digitsValue ''007''))"
    using demo_digits by (simp add: exact_ms_def safe_integer_def)
  have j2: "JString ''007'' = JString ''007'' \<and> ''007'' \<noteq> [] \<and> (\<forall>c\<in>set ''007''. isDigit c) \<and>
              exact_ms 5000 (int (digitsValue ''007''))"
    using demo_digits x2 by simp
  have "\<forall>s. JString ''007'' = JString s \<and> s \<noteq> [] \<and> (\<forall>c\<in>set s. isDigit c) \<and>
              exact_ms 5000 (int (digitsValue s)) \<longrightarrow>
            Some (425000::int) = Some (5000 + int (digitsValue s) * 60000)"
    using api_session_expires_at [OF r2] by (elim conjE)
  then have "JString ''007'' = JString ''007'' \<and> ''007'' \<noteq> [] \<and> (\<forall>c\<in>set ''007''. isDigit c) \<and>
              exact_ms 5000 (int (digitsValue ''007'')) \<longrightarrow>
            Some (425000::int) = Some (5000 + int (digitsValue ''007'') * 60000)"
    by (rule spec)
  then have e2: "Some (425000::int) = Some (5000 + int (digitsValue ''007'') * 60000)"
    using j2 by (rule mp)
  show ?thesis
    by (intro conjI) (rule r x e r2 x2 e2)+
qed

subsection \<open>C5: a successful check-in\<close>

text \<open>
  Claim C5. When none of the five checks fails (and the fresh record id is not yet in
  the table, as for a new UUID), the check-in appends exactly one attendance record,
  with status "present", the current time as \<^verbatim>\<open>checkin_time\<close> and method "qr",
  changes nothing else and reports success.
\<close>

theorem api_checkin_success:
  assumes "sid \<noteq> []" and "tok \<noteq> []" and "stu \<noteq> []"
    and "find (check_fails d now1 sid tok stu) checks_in_order = None"
    and "recId \<notin> a_id ` set (attendance d)"
  shows "api_checkin d recId now1 now2 (Some sid) (Some tok) (Some stu)
           = (d\<lparr>attendance := attendance d @
                  [\<lparr>a_id = recId, a_session_id = sid, a_student_id = stu,
                    a_status = ''present'', a_checkin_time = now2, a_method = ''qr''\<rparr>]\<rparr>,
              Reply 200 (SuccessMessage ''Checked in''))"
  using assms(4,5) by (simp add: api_checkin_by_checks [OF assms(1-3)])

theorem api_checkin_success_witness:
  "find (check_fails demo_db 2000 ''s1'' ''deadbeef'' ''stu1'') checks_in_order = None
   \<and> ''r1'' \<notin> a_id ` set (attendance demo_db)
   \<and> api_checkin demo_db ''r1'' 2000 2001 (Some ''s1'') (Some ''deadbeef'') (Some ''stu1'')
       = (demo_db\<lparr>attendance := attendance demo_db @
            [\<lparr>a_id = ''r1'', a_session_id = ''s1'', a_student_id = ''stu1'', a_status = ''present'',
              a_checkin_time = 2001, a_method = ''qr''\<rparr>]\<rparr>,
          Reply 200 (SuccessMessage ''Checked in''))"
proof -
  have n: "''s1'' \<noteq> []" "''deadbeef'' \<noteq> []" "''stu1'' \<noteq> []" by simp_all
  have c: "find (check_fails demo_db 2000 ''s1'' ''deadbeef'' ''stu1'') checks_in_order = None"
    by (simp add: checks_in_order_def demo_db_def seed_users_def js_gt_def)
  have f: "''r1'' \<notin> a_id ` set (attendance demo_db)"
    by (simp add: demo_db_def)
  from api_checkin_success [OF n c f, of 2001] c f show ?thesis by simp
qed

subsection \<open>C6: an invalid faculty identifier\<close>

text \<open>
  Claim C6. A session request, with both identifiers supplied, whose faculty
  identifier is not the id of a user with role faculty is answered InvalidFaculty and
  leaves the database as it was; in particular when the identifier is the id of a
  student (ids being unique, as the primary key makes them).
\<close>

theorem api_session_invalid_faculty:
  assumes "fid \<noteq> []" and "sec \<noteq> []"
  shows "((fid, ''faculty'') \<notin> (\<lambda>u. (u_id u, u_role u)) ` set (users d) \<longrightarrow>
            api_session d uuid1 uuid2 now protocol host (Some fid) (Some sec) m
              = (d, Reply 400 (Error ''Invalid faculty'')))
       \<and> (distinct (map u_id (users d)) \<and>
            (fid, ''student'') \<in> (\<lambda>u. (u_id u, u_role u)) ` set (users d) \<longrightarrow>
            api_session d uuid1 uuid2 now protocol host (Some fid) (Some sec) m
              = (d, Reply 400 (Error ''Invalid faculty'')))"
proof -
  have a: "api_session d uuid1 uuid2 now protocol host (Some fid) (Some sec) m
             = (d, Reply 400 (Error ''Invalid faculty''))"
    if "(fid, ''faculty'') \<notin> (\<lambda>u. (u_id u, u_role u)) ` set (users d)"
  proof -
    from that have "find (\<lambda>u. u_id u = fid \<and> u_role u = ''faculty'') (users d) = None"
      using faculty_lookup_None [of fid d] by simp
    with assms show ?thesis by (simp add: api_session_def)
  qed
  have b: "(fid, ''faculty'') \<notin> (\<lambda>u. (u_id u, u_role u)) ` set (users d)"
    if dist: "distinct (map u_id (users d))"
      and stud: "(fid, ''student'') \<in> (\<lambda>u. (u_id u, u_role u)) ` set (users d)"
  proof
    assume "(fid, ''faculty'') \<in> (\<lambda>u. (u_id u, u_role u)) ` set (users d)"
    then obtain v where v: "v \<in> set (users d)" "u_id v = fid" "u_role v = ''faculty''" by auto
    from stud obtain u where u: "u \<in> set (users d)" "u_id u = fid" "u_role u = ''student''" by auto
    from distinct_ids_one_role [OF dist u(1) v(1)] u v have "u = v" by simp
    with u v show False by simp
  qed
  from a b show ?thesis by blast
qed

theorem api_session_invalid_faculty_witness:
  "distinct (map u_id (users demo_db))
   \<and> (''stu1'', ''student'') \<in> (\<lambda>u. (u_id u, u_role u)) ` set (users demo_db)
   \<and> api_session demo_db ''s2'' ''cafe0123-aaaa'' 5000 ''http'' ''localhost:3001''
        (Some ''stu1'') (Some ''sec101'') (JNumber 30)
       = (demo_db, Reply 400 (Error ''Invalid faculty''))
   \<and> (''ghost'', ''faculty'') \<notin> (\<lambda>u. (u_id u, u_role u)) ` set (users demo_db)
   \<and> api_session demo_db ''s2'' ''cafe0123-aaaa'' 5000 ''http'' ''localhost:3001''
        (Some ''ghost'') (Some ''sec101'') JUndefined
       = (demo_db, Reply 400 (Error ''Invalid faculty''))"
proof -
  have d: "distinct (map u_id (users demo_db))"
    and s: "(''stu1'', ''student'') \<in> (\<lambda>u. (u_id u, u_role u)) ` set (users demo_db)"
    and g: "(''ghost'', ''faculty'') \<notin> (\<lambda>u. (u_id u, u_role u)) ` set (users demo_db)"
    by (simp_all add: demo_db_def seed_users_def)
  have n: "''stu1'' \<noteq> []" "''ghost'' \<noteq> []" "''sec101'' \<noteq> []" by simp_all
  note t1 = api_session_invalid_faculty [OF n(1) n(3), of demo_db "''s2''" "''cafe0123-aaaa''" 5000
      "''http''" "''localhost:3001''" "JNumber 30"]
  note t2 = api_session_invalid_faculty [OF n(2) n(3), of demo_db "''s2''" "''cafe0123-aaaa''" 5000
      "''http''" "''localhost:3001''" JUndefined]
  have a: "api_session demo_db ''s2'' ''cafe0123-aaaa'' 5000 ''http'' ''localhost:3001''
        (Some ''stu1'') (Some ''sec101'') (JNumber 30)
       = (demo_db, Reply 400 (Error ''Invalid faculty''))"
    by (rule mp [OF t1 [THEN conjunct2] conjI [OF d s]])
  have b: "api_session demo_db ''s2'' ''cafe0123-aaaa'' 5000 ''http'' ''localhost:3001''
        (Some ''ghost'') (Some ''sec101'') JUndefined
       = (demo_db, Reply 400 (Error ''Invalid faculty''))"
    by (rule mp [OF t2 [THEN conjunct1] g])
  show ?thesis
    by (intro conjI) (rule d s a g b)+
qed

subsection \<open>C7: failed check-ins and the attendance table\<close>

text \<open>
  Claim C7. A check-in that does not report success, whatever the reason, leaves the
  database unchanged; one that reports success appends one record. No operation changes
  the attendance table except a successful check-in, which appends one record, so the
  records present stay as they are, in place, through every run.
\<close>

theorem attendance_only_by_successful_checkin:
  "(snd (api_checkin d r t1 t2 a b c) \<noteq> Reply 200 (SuccessMessage ''Checked in'') \<longrightarrow>
      fst (api_checkin d r t1 t2 a b c) = d)
   \<and> (snd (api_checkin d r t1 t2 a b c) = Reply 200 (SuccessMessage ''Checked in'') \<longrightarrow>
      (\<exists>row. fst (api_checkin d r t1 t2 a b c) = d\<lparr>attendance := attendance d @ [row]\<rparr>))
   \<and> (attendance (step d ev) = attendance d
      \<or> (\<exists>r t1 t2 s k u row. ev = Checkin r t1 t2 s k u \<and>
            snd (api_checkin d r t1 t2 s k u) = Reply 200 (SuccessMessage ''Checked in'') \<and>
            attendance (step d ev) = attendance d @ [row]))
   \<and> prefix (attendance d) (attendance (run d evs))"
proof -
  from api_checkin_state [of d r t1 t2 a b c]
  have 1: "snd (api_checkin d r t1 t2 a b c) \<noteq> Reply 200 (SuccessMessage ''Checked in'') \<longrightarrow>
      fst (api_checkin d r t1 t2 a b c) = d"
    and 2: "snd (api_checkin d r t1 t2 a b c) = Reply 200 (SuccessMessage ''Checked in'') \<longrightarrow>
      (\<exists>row. fst (api_checkin d r t1 t2 a b c) = d\<lparr>attendance := attendance d @ [row]\<rparr>)"
    by auto
  from 1 2 step_attendance [of d ev] run_attendance [of d evs] show ?thesis by blast
qed

theorem attendance_only_by_successful_checkin_witness:
  "snd (api_checkin demo_db ''r1'' 2000 2001 (Some ''s1'') (Some ''wrong'') (Some ''stu1''))
     \<noteq> Reply 200 (SuccessMessage ''Checked in'')
   \<and> fst (api_checkin demo_db ''r1'' 2000 2001 (Some ''s1'') (Some ''wrong'') (Some ''stu1'')) = demo_db
   \<and> snd (api_checkin demo_db ''r1'' 2000 2001 (Some ''s1'') (Some ''deadbeef'') (Some ''stu1''))
     = Reply 200 (SuccessMessage ''Checked in'')
   \<and> (\<exists>row. fst (api_checkin demo_db ''r1'' 2000 2001 (Some ''s1'') (Some ''deadbeef'') (Some ''stu1''))
         = demo_db\<lparr>attendance := attendance demo_db @ [row]\<rparr>)"
proof -
  have f: "snd (api_checkin demo_db ''r1'' 2000 2001 (Some ''s1'') (Some ''wrong'') (Some ''stu1''))
     \<noteq> Reply 200 (SuccessMessage ''Checked in'')"
    by (simp add: api_checkin_def demo_db_def)
  have s: "snd (api_checkin demo_db ''r1'' 2000 2001 (Some ''s1'') (Some ''deadbeef'') (Some ''stu1''))
     = Reply 200 (SuccessMessage ''Checked in'')"
    by (simp add: api_checkin_def demo_db_def seed_users_def js_gt_def)
  note t1 = attendance_only_by_successful_checkin
    [of demo_db "''r1''" 2000 2001 "Some ''s1''" "Some ''wrong''" "Some ''stu1''" InitDb "[]"]
  note t2 = attendance_only_by_successful_checkin
    [of demo_db "''r1''" 2000 2001 "Some ''s1''" "Some ''deadbeef''" "Some ''stu1''" InitDb "[]"]
  have a: "fst (api_checkin demo_db ''r1'' 2000 2001 (Some ''s1'') (Some ''wrong'') (Some ''stu1'')) = demo_db"
    by (rule mp [OF t1 [THEN conjunct1] f])
  have b: "\<exists>row. fst (api_checkin demo_db ''r1'' 2000 2001 (Some ''s1'') (Some ''deadbeef'') (Some ''stu1''))
         = demo_db\<lparr>attendance := attendance demo_db @ [row]\<rparr>"
    by (rule mp [OF t2 [THEN conjunct2, THEN conjunct1] s])
  show ?thesis
    by (intro conjI) (rule f a s b)+
qed

subsection \<open>C8: status codes of the check-in\<close>

text \<open>
  Claim C8 says that an unknown student is answered with status 404 or 400. The
  handler answers 403: here the session exists, the token is right, the session is
  open, and no student is called \<open>nobody\<close>.
\<close>

theorem api_checkin_unknown_student_counterexample:
  "find (check_fails demo_db 2000 ''s1'' ''deadbeef'' ''nobody'') checks_in_order
     = Some StudentNotFound
   \<and> api_checkin demo_db ''r1'' 2000 2001 (Some ''s1'') (Some ''deadbeef'') (Some ''nobody'')
       = (demo_db, Reply 403 (Error ''Student not found''))
   \<and> reply_status (Reply 403 (Error ''Student not found'')) \<noteq> 404
   \<and> reply_status (Reply 403 (Error ''Student not found'')) \<noteq> 400"
  by (simp add: api_checkin_def checks_in_order_def demo_db_def seed_users_def js_gt_def)

text \<open>
  Claim C8, amended. With the three parameters supplied, the status of the response is
  404 for an unknown session, 403 for a wrong token, for an expired session and for an
  unknown student, 409 for a duplicate check-in, and 200 on success (500 when the
  database refuses the insert).
\<close>

theorem api_checkin_status_codes:
  assumes "sid \<noteq> []" and "tok \<noteq> []" and "stu \<noteq> []"
  shows "reply_status (snd (api_checkin d recId now1 now2 (Some sid) (Some tok) (Some stu)))
           = (case find (check_fails d now1 sid tok stu) checks_in_order of
                Some SessionNotFound \<Rightarrow> 404
              | Some InvalidToken \<Rightarrow> 403
              | Some SessionExpired \<Rightarrow> 403
              | Some StudentNotFound \<Rightarrow> 403
              | Some DuplicateCheckin \<Rightarrow> 409
              | None \<Rightarrow> if recId \<in> a_id ` set (attendance d) then 500 else 200)"
proof -
  note r = api_checkin_by_checks [OF assms, of d recId now1 now2]
  show ?thesis
  proof (cases "find (check_fails d now1 sid tok stu) checks_in_order")
    case None
    with r show ?thesis by simp
  next
    case (Some f)
    with r show ?thesis by (cases f) simp_all
  qed
qed

theorem api_checkin_status_codes_witness:
  "reply_status (snd (api_checkin demo_db ''r1'' 2000 2001 (Some ''s1'') (Some ''deadbeef'') (Some ''nobody''))) = 403
   \<and> reply_status (snd (api_checkin demo_db ''r1'' 2000 2001 (Some ''zz'') (Some ''deadbeef'') (Some ''stu1''))) = 404"
proof -
  have n: "''s1'' \<noteq> []" "''deadbeef'' \<noteq> []" "''nobody'' \<noteq> []" "''zz'' \<noteq> []" "''stu1'' \<noteq> []"
    by simp_all
  have a: "find (check_fails demo_db 2000 ''s1'' ''deadbeef'' ''nobody'') checks_in_order = Some StudentNotFound"
    by (simp add: checks_in_order_def demo_db_def seed_users_def js_gt_def)
  have b: "find (check_fails demo_db 2000 ''zz'' ''deadbeef'' ''stu1'') checks_in_order = Some SessionNotFound"
    by (simp add: checks_in_order_def demo_db_def seed_users_def js_gt_def)
  from api_checkin_status_codes [OF n(1) n(2) n(3), of demo_db "''r1''" 2000 2001]
       api_checkin_status_codes [OF n(4) n(2) n(5), of demo_db "''r1''" 2000 2001] a b
  show ?thesis by simp
qed

subsection \<open>C9: a report without sessions\<close>

text \<open>
  Claim C9. A report whose section filter matches no session, and an unfiltered report
  when there is no session at all, is answered with the text "No sessions" and status
  200. (An empty \<^verbatim>\<open>section\<close> parameter is falsy, so it is no filter.)
\<close>

theorem report_csv_no_sessions:
  "(sec \<noteq> [] \<and> sec \<notin> s_section_id ` set (sessions d) \<longrightarrow>
      report_csv d (Some sec) = Reply 200 (Text ''No sessions''))
   \<and> (sessions d = [] \<longrightarrow> report_csv d section = Reply 200 (Text ''No sessions''))"
proof -
  have "filter (\<lambda>s. s_section_id s = sec) (sessions d) = []"
    if "sec \<notin> s_section_id ` set (sessions d)"
    using that by (auto simp: filter_empty_conv)
  then show ?thesis by (simp add: report_csv_def)
qed

theorem report_csv_no_sessions_witness:
  "''sec999'' \<noteq> [] \<and> ''sec999'' \<notin> s_section_id ` set (sessions demo_db)
   \<and> report_csv demo_db (Some ''sec999'') = Reply 200 (Text ''No sessions'')
   \<and> sessions empty_db = []
   \<and> report_csv empty_db None = Reply 200 (Text ''No sessions'')"
proof -
  have a: "''sec999'' \<noteq> [] \<and> ''sec999'' \<notin> s_section_id ` set (sessions demo_db)"
    by (simp add: demo_db_def)
  have b: "sessions empty_db = []"
    by (simp add: empty_db_def)
  have c: "report_csv demo_db (Some ''sec999'') = Reply 200 (Text ''No sessions'')"
    by (rule mp [OF report_csv_no_sessions [of "''sec999''" demo_db None, THEN conjunct1] a])
  have e: "report_csv empty_db None = Reply 200 (Text ''No sessions'')"
    by (rule mp [OF report_csv_no_sessions [of "''sec999''" empty_db None, THEN conjunct2] b])
  show ?thesis
    by (intro conjI) (rule a [THEN conjunct1] a [THEN conjunct2] b c e)+
qed

subsection \<open>C10: deleting a faculty user\<close>

text \<open>
  Claim C10. Deleting a faculty user reports success in every case, leaves the sections,
  sessions and attendance tables as they are, keeps every user whose role is not
  faculty (in particular every student), removes only rows with the given id and role
  faculty, and changes nothing when there is no such row.
\<close>

theorem api_faculty_delete_frame:
  "snd (api_faculty_delete d i) = Reply 200 Success
   \<and> sections (fst (api_faculty_delete d i)) = sections d
   \<and> sessions (fst (api_faculty_delete d i)) = sessions d
   \<and> attendance (fst (api_faculty_delete d i)) = attendance d
   \<and> filter (\<lambda>u. u_role u \<noteq> ''faculty'') (users (fst (api_faculty_delete d i)))
       = filter (\<lambda>u. u_role u \<noteq> ''faculty'') (users d)
   \<and> (\<forall>u\<in>set (users d). u \<notin> set (users (fst (api_faculty_delete d i))) \<longrightarrow>
         u_id u = i \<and> u_role u = ''faculty'')
   \<and> set (users (fst (api_faculty_delete d i))) \<subseteq> set (users d)
   \<and> ((i, ''faculty'') \<notin> (\<lambda>u. (u_id u, u_role u)) ` set (users d) \<longrightarrow>
         fst (api_faculty_delete d i) = d)"
proof -
  have keep: "filter (\<lambda>u. \<not> (u_id u = i \<and> u_role u = ''faculty'')) (users d) = users d"
    if "(i, ''faculty'') \<notin> (\<lambda>u. (u_id u, u_role u)) ` set (users d)"
    using that by (auto simp: filter_id_conv image_iff)
  have nonfac: "filter (\<lambda>u. u_role u \<noteq> ''faculty'')
                  (filter (\<lambda>u. \<not> (u_id u = i \<and> u_role u = ''faculty'')) (users d))
                = filter (\<lambda>u. u_role u \<noteq> ''faculty'') (users d)"
    by (simp add: conj_commute cong: conj_cong)
  show ?thesis
    using keep nonfac by (simp add: api_faculty_delete_def)
qed

theorem api_faculty_delete_frame_witness:
  "(''stu1'', ''faculty'') \<notin> (\<lambda>u. (u_id u, u_role u)) ` set (users demo_db)
   \<and> api_faculty_delete demo_db ''stu1'' = (demo_db, Reply 200 Success)"
proof -
  have a: "(''stu1'', ''faculty'') \<notin> (\<lambda>u. (u_id u, u_role u)) ` set (users demo_db)"
    by (simp add: demo_db_def seed_users_def)
  note f = api_faculty_delete_frame [of demo_db "''stu1''"]
  have s: "snd (api_faculty_delete demo_db ''stu1'') = Reply 200 Success"
    by (rule f [THEN conjunct1])
  have "(''stu1'', ''faculty'') \<notin> (\<lambda>u. (u_id u, u_role u)) ` set (users demo_db) \<longrightarrow>
         fst (api_faculty_delete demo_db ''stu1'') = demo_db"
    using f by (elim conjE)
  then have d: "fst (api_faculty_delete demo_db ''stu1'') = demo_db"
    using a by (rule mp)
  have "api_faculty_delete demo_db ''stu1'' = (demo_db, Reply 200 Success)"
    using s d by (simp only: prod_eq_iff fst_conv snd_conv)
  with a show ?thesis by (rule conjI)
qed

end
